theory Spec2Isabelle
  imports Main
begin

section \<open>The upload server \<open>src/server.py\<close>\<close>

text \<open>
  A shallow embedding of the three request handlers of \<open>VeoRequestHandler\<close>
  (\<open>do_OPTIONS\<close>, \<open>do_GET\<close>, \<open>do_POST\<close>), of its helpers and of the mocked collaborator
  \<open>generate_video_using_veo\<close>.

  Python strings are lists of HOL characters, read as code points below 256. The
  functions of the standard library that the handlers call are modelled next to their
  use, each after the library's own code; the file system is an explicit map from
  absolute paths to nodes, passed through the handlers.
\<close>

subsection \<open>Strings\<close>

text \<open>\<open>s.split(sep)\<close> for a one-character separator: never the empty list.\<close>

fun str_split :: "char \<Rightarrow> string \<Rightarrow> string list" where
  "str_split sep [] = [[]]"
| "str_split sep (x # xs) =
     (if x = sep then [] # str_split sep xs
      else (case str_split sep xs of
              [] \<Rightarrow> [[x]]
            | y # ys \<Rightarrow> (x # y) # ys))"

text \<open>\<open>sep.join(comps)\<close>.\<close>

fun str_join :: "char \<Rightarrow> string list \<Rightarrow> string" where
  "str_join sep [] = []"
| "str_join sep [c] = c"
| "str_join sep (c # d # cs) = c @ sep # str_join sep (d # cs)"

text \<open>\<open>s.startswith(p)\<close>.\<close>

definition startswith :: "string \<Rightarrow> string \<Rightarrow> bool" where
  "startswith s p = (take (length p) s = p)"

text \<open>\<open>s.lstrip("/")\<close>.\<close>

definition lstrip_slash :: "string \<Rightarrow> string" where
  "lstrip_slash s = dropWhile (\<lambda>c. c = CHR ''/'') s"

text \<open>\<open>s.split("?", 1)[0]\<close>: everything before the first question mark.\<close>

definition before_query :: "string \<Rightarrow> string" where
  "before_query s = takeWhile (\<lambda>c. c \<noteq> CHR ''?'') s"

text \<open>
  \<open>s.lower()\<close> on code points below 256: the letters \<open>A\<close>..\<open>Z\<close> and the Latin-1 capitals
  \<open>0xC0\<close>..\<open>0xDE\<close> (without the multiplication sign \<open>0xD7\<close>) move up by 32.
\<close>

definition chr_lower :: "char \<Rightarrow> char" where
  "chr_lower c =
     (let n = (of_char c :: nat)
      in if (65 \<le> n \<and> n \<le> 90) \<or> (192 \<le> n \<and> n \<le> 222 \<and> n \<noteq> 215)
         then char_of (n + 32) else c)"

definition str_lower :: "string \<Rightarrow> string" where
  "str_lower s = map chr_lower s"

text \<open>\<open>c.isspace()\<close> and \<open>s.strip()\<close> on code points below 256.\<close>

definition isspace :: "char \<Rightarrow> bool" where
  "isspace c = ((of_char c :: nat) \<in> {9, 10, 11, 12, 13, 28, 29, 30, 31, 32, 133, 160})"

definition str_strip :: "string \<Rightarrow> string" where
  "str_strip s = rev (dropWhile isspace (rev (dropWhile isspace s)))"

text \<open>\<open>s.rfind(c)\<close>: the index of the last occurrence, \<open>None\<close> for Python's \<open>-1\<close>.\<close>

fun rfind :: "char \<Rightarrow> string \<Rightarrow> nat option" where
  "rfind c [] = None"
| "rfind c (x # xs) =
     (case rfind c xs of
        Some i \<Rightarrow> Some (Suc i)
      | None \<Rightarrow> (if x = c then Some 0 else None))"

subsection \<open>\<open>posixpath.normpath\<close>\<close>

text \<open>
  One round of the loop over the components, for the component \<open>c\<close>: \<open>new_comps\<close> is
  the list built so far, \<open>initial_slashes\<close> the number of leading slashes that count
  (0, 1 or 2).
\<close>

definition normpath_step :: "nat \<Rightarrow> string list \<Rightarrow> string \<Rightarrow> string list" where
  "normpath_step initial_slashes new_comps c =
     (if c = [] \<or> c = ''.'' then new_comps
      else if c \<noteq> ''..'' \<or> (initial_slashes = 0 \<and> new_comps = [])
              \<or> (new_comps \<noteq> [] \<and> last new_comps = ''..'')
           then new_comps @ [c]
      else if new_comps \<noteq> [] then butlast new_comps
      else new_comps)"

definition normpath :: "string \<Rightarrow> string" where
  "normpath path =
     (if path = [] then ''.''
      else
        let initial_slashes =
              (if startswith path ''//'' \<and> \<not> startswith path ''///'' then 2
               else if startswith path ''/'' then 1 else 0);
            comps = str_split CHR ''/'' path;
            new_comps = foldl (normpath_step initial_slashes) [] comps;
            path = str_join CHR ''/'' new_comps;
            path = (if initial_slashes \<noteq> 0
                    then replicate initial_slashes CHR ''/'' @ path else path)
        in if path = [] then ''.'' else path)"

subsection \<open>\<open>pathlib\<close> paths\<close>

text \<open>
  A pure POSIX path: the anchor (empty for a relative path, one or two slashes
  otherwise) and the components after it. Parsing drops empty components and single
  dots, and keeps \<open>..\<close>.
\<close>

record pure_path =
  anchor :: string
  tail :: "string list"

definition Path :: "string \<Rightarrow> pure_path" where
  "Path s =
     \<lparr> anchor = (if startswith s ''//'' \<and> \<not> startswith s ''///'' then ''//''
                 else if startswith s ''/'' then ''/'' else []),
       tail = filter (\<lambda>c. c \<noteq> [] \<and> c \<noteq> ''.'') (str_split CHR ''/'' s) \<rparr>"

text \<open>\<open>a / b\<close>: an absolute right operand replaces the left one.\<close>

definition truediv :: "pure_path \<Rightarrow> pure_path \<Rightarrow> pure_path" where
  "truediv a b = (if anchor b \<noteq> [] then b else a\<lparr>tail := tail a @ tail b\<rparr>)"

text \<open>\<open>p.name\<close> and \<open>p.suffix\<close> (the rule of Python up to 3.12: \<open>0 < i < len(name) - 1\<close>).\<close>

definition path_name :: "pure_path \<Rightarrow> string" where
  "path_name p = (if tail p = [] then [] else last (tail p))"

definition path_suffix :: "pure_path \<Rightarrow> string" where
  "path_suffix p =
     (let name = path_name p
      in case rfind CHR ''.'' name of
           None \<Rightarrow> []
         | Some i \<Rightarrow> (if 0 < i \<and> Suc i < length name then drop i name else []))"

subsection \<open>The file system\<close>

text \<open>
  A node is a regular file with its bytes or a directory; the file system maps the
  components of an absolute, resolved path to the node there. Symbolic links,
  permissions and limits on name lengths are not modelled.
\<close>

datatype node = File string | Dir

type_synonym fs = "string list \<Rightarrow> node option"

text \<open>
  How the operating system follows the components of an absolute path from the root
  directory: every step needs a directory to step from, \<open>..\<close> goes to the parent (the
  root is its own parent).
\<close>

fun os_walk :: "fs \<Rightarrow> string list \<Rightarrow> string list \<Rightarrow> string list option" where
  "os_walk fs cur [] = Some cur"
| "os_walk fs cur (c # cs) =
     (if fs cur \<noteq> Some Dir then None
      else if c = ''..'' then os_walk fs (butlast cur) cs
      else if c = ''.'' \<or> c = [] then os_walk fs cur cs
      else os_walk fs (cur @ [c]) cs)"

text \<open>
  \<open>os.stat\<close> of a path. The handlers only pass absolute paths (the two directories of
  the server are resolved at start-up), so the walk starts at the root.
\<close>

definition os_stat :: "fs \<Rightarrow> pure_path \<Rightarrow> node option" where
  "os_stat fs p = (case os_walk fs [] (tail p) of None \<Rightarrow> None | Some q \<Rightarrow> fs q)"

definition path_exists :: "fs \<Rightarrow> pure_path \<Rightarrow> bool" where
  "path_exists fs p = (os_stat fs p \<noteq> None)"

definition is_file :: "fs \<Rightarrow> pure_path \<Rightarrow> bool" where
  "is_file fs p = (case os_stat fs p of Some (File b) \<Rightarrow> True | _ \<Rightarrow> False)"

text \<open>\<open>path.open("rb")\<close> copied to the end: the bytes of the file.\<close>

definition read_bytes :: "fs \<Rightarrow> pure_path \<Rightarrow> string" where
  "read_bytes fs p = (case os_stat fs p of Some (File b) \<Rightarrow> b | _ \<Rightarrow> [])"

subsection \<open>Requests and responses\<close>

text \<open>
  A part of a parsed multipart form (\<open>cgi.FieldStorage\<close>): its name and file name from
  the \<open>Content-Disposition\<close> header, when given, and its content.
\<close>

record form_field =
  field_name :: "string option"
  filename :: "string option"
  content :: string

datatype exn =
    ValueError
  | TypeError
  | FileExistsError
  | FileNotFoundError
  | NotADirectoryError
  | IsADirectoryError
  | CollaboratorError string

text \<open>
  What a handler sees of a request: \<open>self.path\<close>, \<open>self.headers\<close> in the order received,
  and what \<open>cgi.FieldStorage\<close> makes of the body: the list of parts, or the exception it
  raises (a missing boundary, for one).
\<close>

record request =
  req_path :: string
  req_headers :: "(string \<times> string) list"
  req_form :: "exn + form_field list"

text \<open>
  What a handler sends: the status code given to \<open>send_response\<close> or \<open>send_error\<close>, the
  message given to \<open>send_error\<close> (the library then sends its own error page), the headers
  given to \<open>send_header\<close> in order, and the bytes written to \<open>wfile\<close>. The \<open>Server\<close> and
  \<open>Date\<close> headers that the library adds to every response are left out.
\<close>

record response =
  status :: "nat option"
  error_message :: "string option"
  sent_headers :: "(string \<times> string) list"
  body :: string

definition no_response :: response where
  "no_response = \<lparr> status = None, error_message = None, sent_headers = [], body = [] \<rparr>"

definition send_response :: "nat \<Rightarrow> response \<Rightarrow> response" where
  "send_response code r = r\<lparr>status := Some code\<rparr>"

definition send_header :: "string \<Rightarrow> string \<Rightarrow> response \<Rightarrow> response" where
  "send_header keyword v r = r\<lparr>sent_headers := sent_headers r @ [(keyword, v)]\<rparr>"

definition end_headers :: "response \<Rightarrow> response" where
  "end_headers r = r"

definition send_error :: "nat \<Rightarrow> string \<Rightarrow> response \<Rightarrow> response" where
  "send_error code message r = r\<lparr>status := Some code, error_message := Some message\<rparr>"

definition wfile_write :: "string \<Rightarrow> response \<Rightarrow> response" where
  "wfile_write bytes r = r\<lparr>body := body r @ bytes\<rparr>"

abbreviation OK :: nat where "OK \<equiv> 200"
abbreviation NO_CONTENT :: nat where "NO_CONTENT \<equiv> 204"
abbreviation BAD_REQUEST :: nat where "BAD_REQUEST \<equiv> 400"
abbreviation NOT_FOUND :: nat where "NOT_FOUND \<equiv> 404"
abbreviation REQUEST_ENTITY_TOO_LARGE :: nat where "REQUEST_ENTITY_TOO_LARGE \<equiv> 413"
abbreviation UNSUPPORTED_MEDIA_TYPE :: nat where "UNSUPPORTED_MEDIA_TYPE \<equiv> 415"

text \<open>
  The surroundings of the handlers: the two directories, as the components of their
  absolute paths, and the built-in \<open>int\<close> on strings (\<open>None\<close> where it raises
  \<open>ValueError\<close>).
\<close>

record env =
  PUBLIC_DIR :: "string list"
  UPLOAD_DIR :: "string list"
  py_int :: "string \<Rightarrow> int option"

definition abs_path :: "string list \<Rightarrow> pure_path" where
  "abs_path comps = \<lparr> anchor = ''/'', tail = comps \<rparr>"

subsection \<open>\<open>do_OPTIONS\<close>\<close>

definition do_OPTIONS :: "request \<Rightarrow> response" where
  "do_OPTIONS self =
     (let r = send_response NO_CONTENT no_response;
          r = send_header ''Access-Control-Allow-Origin'' ''*'' r;
          r = send_header ''Access-Control-Allow-Methods'' ''POST, GET, OPTIONS'' r;
          r = send_header ''Access-Control-Allow-Headers'' ''Content-Type'' r
      in end_headers r)"

subsection \<open>\<open>do_GET\<close>\<close>

definition send_common_headers :: "response \<Rightarrow> response" where
  "send_common_headers r =
     (let r = send_header ''Access-Control-Allow-Origin'' ''*'' r
      in send_header ''Cache-Control'' ''no-cache'' r)"

definition translate_path :: "string \<Rightarrow> pure_path" where
  "translate_path url_path =
     (let path = normpath (lstrip_slash (before_query url_path))
      in Path path)"

definition guess_type :: "pure_path \<Rightarrow> string" where
  "guess_type path =
     (if path_suffix path = ''.css'' then ''text/css''
      else if path_suffix path = ''.js'' then ''application/javascript''
      else if path_suffix path \<in> {''.html'', ''.htm''} then ''text/html''
      else if path_suffix path = ''.json'' then ''application/json''
      else if path_suffix path = ''.png'' then ''image/png''
      else if path_suffix path \<in> {''.jpg'', ''.jpeg''} then ''image/jpeg''
      else if path_suffix path = ''.svg'' then ''image/svg+xml''
      else ''application/octet-stream'')"

text \<open>The path that \<open>do_GET\<close> looks up.\<close>

definition get_target :: "env \<Rightarrow> request \<Rightarrow> pure_path" where
  "get_target e self =
     (if req_path self = ''/'' \<or> req_path self = []
      then truediv (abs_path (PUBLIC_DIR e)) (Path ''index.html'')
      else truediv (abs_path (PUBLIC_DIR e)) (translate_path (req_path self)))"

definition do_GET :: "env \<Rightarrow> fs \<Rightarrow> request \<Rightarrow> response" where
  "do_GET e fs self =
     (let path = get_target e self
      in if \<not> path_exists fs path \<or> \<not> is_file fs path
         then send_error NOT_FOUND ''File not found'' no_response
         else
           let r = send_response OK no_response;
               r = send_common_headers r;
               r = send_header ''Content-Type'' (guess_type path) r;
               r = end_headers r
           in wfile_write (read_bytes fs path) r)"

subsection \<open>Headers\<close>

text \<open>
  \<open>self.headers.get(name)\<close>: the value of the first header whose name matches without
  regard to case, \<open>None\<close> when there is none (the caller supplies the default).
\<close>

fun headers_get :: "(string \<times> string) list \<Rightarrow> string \<Rightarrow> string option" where
  "headers_get [] name = None"
| "headers_get ((k, v) # hs) name =
     (if str_lower k = str_lower name then Some v else headers_get hs name)"

text \<open>
  \<open>cgi.parse_header\<close>, its first result (the handler does not use the dictionary of
  options). The value ends at the first semicolon that stands at index 0 or has an even
  count of unescaped double quotes before it, or at the end of the line, and is
  stripped. \<open>count_quote\<close> is \<open>s.count('"')\<close>, \<open>count_escaped\<close> is \<open>s.count('\\"')\<close> (occurrences
  that do not overlap), \<open>find_all\<close> lists the indices that the repeated \<open>s.find(';', end + 1)\<close> visits.
\<close>

definition count_quote :: "string \<Rightarrow> nat" where
  "count_quote s = length (filter (\<lambda>c. c = CHR 0x22) s)"

fun count_escaped :: "string \<Rightarrow> nat" where
  "count_escaped (a # b # s) =
     (if a = CHR 0x5C \<and> b = CHR 0x22 then Suc (count_escaped s) else count_escaped (b # s))"
| "count_escaped s = 0"

definition find_all :: "char \<Rightarrow> string \<Rightarrow> nat list" where
  "find_all c s = filter (\<lambda>i. s ! i = c) [0 ..< length s]"

fun param_end :: "string \<Rightarrow> nat list \<Rightarrow> nat" where
  "param_end s [] = length s"
| "param_end s (e # es) =
     (if 0 < e \<and> odd (count_quote (take e s) - count_escaped (take e s))
      then param_end s es else e)"

definition parse_header :: "string \<Rightarrow> string" where
  "parse_header line = str_strip (take (param_end line (find_all CHR '';'' line)) line)"

text \<open>
  \<open>ctype\<close> of \<open>ctype, pdict = cgi.parse_header(self.headers.get("Content-Type", ""))\<close>.
\<close>

definition content_type :: "request \<Rightarrow> string" where
  "content_type self =
     parse_header
       (case headers_get (req_headers self) ''Content-Type'' of None \<Rightarrow> [] | Some v \<Rightarrow> v)"

text \<open>\<open>int(self.headers.get("Content-Length", 0))\<close>: the default is the integer 0.\<close>

definition content_length :: "env \<Rightarrow> request \<Rightarrow> exn + int" where
  "content_length e self =
     (case headers_get (req_headers self) ''Content-Length'' of
        None \<Rightarrow> Inr 0
      | Some v \<Rightarrow> (case py_int e v of None \<Rightarrow> Inl ValueError | Some n \<Rightarrow> Inr n))"

subsection \<open>The parsed form\<close>

text \<open>
  A Python value as the handler meets it: text or bytes. The value of a part is bytes
  when the part has a file name, text otherwise.
\<close>

datatype pyval = PStr string | PBytes string

definition field_value :: "form_field \<Rightarrow> pyval" where
  "field_value f = (if filename f = None then PStr (content f) else PBytes (content f))"

text \<open>\<open>key in form\<close>.\<close>

definition form_contains :: "form_field list \<Rightarrow> string \<Rightarrow> bool" where
  "form_contains form key = list_ex (\<lambda>item. field_name item = Some key) form"

text \<open>
  \<open>form[key]\<close>: the part of that name when there is one, the list of them when there are
  several; \<open>None\<close> stands for the \<open>KeyError\<close>, which the handler excludes by asking
  \<open>key in form\<close> first.
\<close>

datatype item = Single form_field | Several "form_field list"

definition form_getitem :: "form_field list \<Rightarrow> string \<Rightarrow> item option" where
  "form_getitem form key =
     (let found = filter (\<lambda>item. field_name item = Some key) form
      in case found of
           [] \<Rightarrow> None
         | [f] \<Rightarrow> Some (Single f)
         | _ \<Rightarrow> Some (Several found))"

text \<open>\<open>form.getfirst(key)\<close>, with its default \<open>None\<close>.\<close>

definition getfirst :: "form_field list \<Rightarrow> string \<Rightarrow> pyval option" where
  "getfirst form key =
     (if form_contains form key
      then (case form_getitem form key of
              Some (Several (f # _)) \<Rightarrow> Some (field_value f)
            | Some (Single f) \<Rightarrow> Some (field_value f)
            | _ \<Rightarrow> None)
      else None)"

subsection \<open>The collaborator\<close>

text \<open>
  \<open>x or "(default prompt)"\<close>: \<open>None\<close>, the empty text and the empty bytes are false.
\<close>

definition or_default :: "pyval option \<Rightarrow> pyval" where
  "or_default prompt =
     (case prompt of
        None \<Rightarrow> PStr ''(default prompt)''
      | Some (PStr s) \<Rightarrow> (if s = [] then PStr ''(default prompt)'' else PStr s)
      | Some (PBytes b) \<Rightarrow> (if b = [] then PStr ''(default prompt)'' else PBytes b))"

text \<open>The returned dictionary, as the list of its items in order.\<close>

type_synonym payload = "(string \<times> pyval) list"

definition generate_video_using_veo :: "pure_path \<Rightarrow> pyval option \<Rightarrow> payload" where
  "generate_video_using_veo file_path prompt =
     [(''videoUrl'', PStr ''https://example.com/generated-veo-ad.mp4''),
      (''jobId'', PStr ''demo-job-1234''),
      (''status'', PStr ''queued''),
      (''usedPrompt'', or_default prompt),
      (''sourceModel'', PStr (path_name file_path))]"

subsection \<open>\<open>json.dumps\<close> and \<open>str\<close>\<close>

text \<open>
  \<open>json.dumps\<close> with its defaults on a dictionary of text keys: text is quoted and
  escaped down to ASCII, bytes raise \<open>TypeError\<close>.
\<close>

definition hex_digit :: "nat \<Rightarrow> char" where
  "hex_digit k = ''0123456789abcdef'' ! (k mod 16)"

definition json_escape :: "char \<Rightarrow> string" where
  "json_escape c =
     (let n = (of_char c :: nat)
      in if n = 0x22 then [CHR 0x5C, CHR 0x22]
         else if n = 0x5C then [CHR 0x5C, CHR 0x5C]
         else if n = 10 then [CHR 0x5C, CHR ''n'']
         else if n = 13 then [CHR 0x5C, CHR ''r'']
         else if n = 9 then [CHR 0x5C, CHR ''t'']
         else if n = 8 then [CHR 0x5C, CHR ''b'']
         else if n = 12 then [CHR 0x5C, CHR ''f'']
         else if n < 32 \<or> 126 < n
              then [CHR 0x5C, CHR ''u'', CHR ''0'', CHR ''0'', hex_digit (n div 16), hex_digit n]
         else [c])"

definition json_string :: "string \<Rightarrow> string" where
  "json_string s = CHR 0x22 # concat (map json_escape s) @ [CHR 0x22]"

fun json_items :: "payload \<Rightarrow> exn + string list" where
  "json_items [] = Inr []"
| "json_items ((k, PBytes b) # kvs) = Inl TypeError"
| "json_items ((k, PStr s) # kvs) =
     (case json_items kvs of
        Inl e \<Rightarrow> Inl e
      | Inr items \<Rightarrow> Inr ((json_string k @ '': '' @ json_string s) # items))"

fun join_items :: "string list \<Rightarrow> string" where
  "join_items [] = []"
| "join_items [i] = i"
| "join_items (i # j # is) = i @ '', '' @ join_items (j # is)"

definition json_dumps :: "payload \<Rightarrow> exn + string" where
  "json_dumps obj =
     (case json_items obj of
        Inl e \<Rightarrow> Inl e
      | Inr items \<Rightarrow> Inr (''{'' @ join_items items @ ''}''))"

text \<open>\<open>str(n)\<close> for a length.\<close>

function str_nat :: "nat \<Rightarrow> string" where
  "str_nat n =
     (if n < 10 then [char_of (48 + n)]
      else str_nat (n div 10) @ [char_of (48 + n mod 10)])"
  by pat_completeness auto
termination
  by (relation "measure (\<lambda>n. n)") auto

declare str_nat.simps [simp del]

subsection \<open>Temporary files\<close>

text \<open>
  \<open>tempfile.mkstemp(suffix, dir)\<close>: \<open>names\<close> are the random names the library draws (it
  stops after \<open>TMP_MAX\<close> of them). The file is \<open>dir\<close>, then \<open>tmp\<close>, the name and the suffix;
  the first one that does not exist yet is created empty, and the result is its path
  and the new file system. Opening fails when \<open>dir\<close> is missing or is not a directory.
\<close>

fun mkstemp :: "fs \<Rightarrow> string list \<Rightarrow> string \<Rightarrow> string list \<Rightarrow> exn + (string list \<times> fs)" where
  "mkstemp fs dir suf [] = Inl FileExistsError"
| "mkstemp fs dir suf (name # names) =
     (let file = dir @ [''tmp'' @ name @ suf]
      in if fs dir = None then Inl FileNotFoundError
         else if fs dir \<noteq> Some Dir then Inl NotADirectoryError
         else if fs file \<noteq> None then mkstemp fs dir suf names
         else Inr (file, fs(file \<mapsto> File [])))"

text \<open>\<open>Path(p).unlink(missing_ok=True)\<close>.\<close>

definition unlink :: "fs \<Rightarrow> string list \<Rightarrow> exn + fs" where
  "unlink fs p =
     (case fs p of
        None \<Rightarrow> Inr fs
      | Some (File b) \<Rightarrow> Inr (fs(p := None))
      | Some Dir \<Rightarrow> Inl IsADirectoryError)"

subsection \<open>\<open>do_POST\<close>\<close>

text \<open>
  The handler with the collaborator it calls as a parameter: a collaborator gets the
  path and the prompt, may change the file system, and returns a dictionary or raises.
  The result of the handler is the response it sent, or the exception that leaves it,
  and the file system it leaves behind. The body of the handler is cut in three:
  the checks up to the prompt (lines 78 to 111), the temporary file around the call
  (lines 113 to 122), and the answer (lines 124 to 130).
\<close>

type_synonym collaborator = "pure_path \<Rightarrow> pyval option \<Rightarrow> fs \<Rightarrow> (exn + payload) \<times> fs"

text \<open>Lines 124 to 130: the payload as JSON, with status 200.\<close>

definition send_json :: "payload \<Rightarrow> exn + response" where
  "send_json response_payload =
     (case json_dumps response_payload of
        Inl ex \<Rightarrow> Inl ex
      | Inr response_bytes \<Rightarrow>
          let r = send_response OK no_response;
              r = send_common_headers r;
              r = send_header ''Content-Type'' ''application/json'' r;
              r = send_header ''Content-Length'' (str_nat (length response_bytes)) r;
              r = end_headers r
          in Inr (wfile_write response_bytes r))"

text \<open>
  Lines 113 to 122: the upload is written to the temporary file, the collaborator is
  called with \<open>Path(temp_path)\<close> (an absolute path with the components of \<open>temp_path\<close>), and
  the \<open>finally\<close> clause unlinks the file whether the call returned or raised. An
  exception of \<open>unlink\<close> replaces the one of the call; otherwise the exception of the call
  leaves the handler after the clause.
\<close>

definition store_and_generate ::
  "collaborator \<Rightarrow> env \<Rightarrow> fs \<Rightarrow> string list \<Rightarrow> form_field \<Rightarrow> string \<Rightarrow> pyval option
     \<Rightarrow> (exn + response) \<times> fs" where
  "store_and_generate collab e fs names upload_field file_suffix prompt_field =
     (case mkstemp fs (UPLOAD_DIR e) file_suffix names of
        Inl ex \<Rightarrow> (Inl ex, fs)
      | Inr (temp_path, fs) \<Rightarrow>
          let fs = fs(temp_path \<mapsto> File (content upload_field));
              (result, fs) = collab (abs_path temp_path) prompt_field fs
          in (case unlink fs temp_path of
                Inl ex \<Rightarrow> (Inl ex, fs)
              | Inr fs \<Rightarrow>
                  (case result of
                     Inl ex \<Rightarrow> (Inl ex, fs)
                   | Inr response_payload \<Rightarrow> (send_json response_payload, fs))))"

text \<open>
  \<open>upload_field is None or not getattr(upload_field, "filename", "")\<close>: true when there
  is no part named \<open>model\<close>, when there are several (a list has no \<open>filename\<close>), and when
  the one part has no file name or an empty one. Otherwise the result is the part and
  its file name.
\<close>

definition checked_upload :: "item option \<Rightarrow> (form_field \<times> string) option" where
  "checked_upload upload_field =
     (case upload_field of
        None \<Rightarrow> None
      | Some (Several found) \<Rightarrow> None
      | Some (Single f) \<Rightarrow>
          (case filename f of
             None \<Rightarrow> None
           | Some name \<Rightarrow> (if name = [] then None else Some (f, name))))"

text \<open>
  The checks: the way out they take (a response sent with \<open>send_error\<close>, or an
  exception), or the part that was uploaded, the suffix of the temporary file and the
  prompt.
\<close>

definition validate ::
  "env \<Rightarrow> request \<Rightarrow> (exn + response) + (form_field \<times> string \<times> pyval option)" where
  "validate e self =
     (if req_path self \<noteq> ''/api/generate''
      then Inl (Inr (send_error NOT_FOUND ''Unknown endpoint'' no_response))
      else
        let ctype = content_type self
        in
        if ctype \<noteq> ''multipart/form-data''
        then Inl (Inr (send_error BAD_REQUEST ''Expected multipart/form-data'' no_response))
        else
          case content_length e self of
            Inl ex \<Rightarrow> Inl (Inl ex)
          | Inr n \<Rightarrow>
        if n > 100 * 1024 * 1024
        then Inl (Inr (send_error REQUEST_ENTITY_TOO_LARGE ''File too large'' no_response))
        else
          case req_form self of
            Inl ex \<Rightarrow> Inl (Inl ex)
          | Inr form \<Rightarrow>
        let upload_field =
              (if form_contains form ''model'' then form_getitem form ''model'' else None)
        in
          case checked_upload upload_field of
            None \<Rightarrow> Inl (Inr (send_error BAD_REQUEST ''Missing model file upload'' no_response))
          | Some (upload_field, upload_filename) \<Rightarrow>
        let file_suffix = str_lower (path_suffix (Path upload_filename))
        in
        if file_suffix \<notin> {''.gltf'', ''.glb''}
        then Inl (Inr (send_error UNSUPPORTED_MEDIA_TYPE ''Only GLTF/GLB files are supported''
                         no_response))
        else
          let prompt_field =
                (if form_contains form ''prompt'' then getfirst form ''prompt'' else None)
          in Inr (upload_field, file_suffix, prompt_field))"

definition do_POST_with ::
  "collaborator \<Rightarrow> env \<Rightarrow> fs \<Rightarrow> string list \<Rightarrow> request \<Rightarrow> (exn + response) \<times> fs" where
  "do_POST_with collab e fs names self =
     (case validate e self of
        Inl way_out \<Rightarrow> (way_out, fs)
      | Inr (upload_field, file_suffix, prompt_field) \<Rightarrow>
          store_and_generate collab e fs names upload_field file_suffix prompt_field)"

text \<open>The mocked collaborator leaves the file system alone and never raises.\<close>

definition veo :: collaborator where
  "veo file_path prompt fs = (Inr (generate_video_using_veo file_path prompt), fs)"

definition do_POST :: "env \<Rightarrow> fs \<Rightarrow> string list \<Rightarrow> request \<Rightarrow> (exn + response) \<times> fs" where
  "do_POST = do_POST_with veo"

subsection \<open>The table of content types, as the specification words it\<close>

text \<open>
  The specification gives the content type by extension: \<open>css\<close>, \<open>js\<close>, \<open>html\<close> and
  \<open>htm\<close>, \<open>json\<close>, \<open>png\<close>, \<open>jpg\<close> and \<open>jpeg\<close>, \<open>svg\<close>, and \<open>application/octet-stream\<close>
  for anything else. This is that table, to be compared with \<open>guess_type\<close>.
\<close>

definition spec_content_type :: "string \<Rightarrow> string" where
  "spec_content_type ext =
     (case map_of
        [(''css'', ''text/css''), (''js'', ''application/javascript''),
         (''html'', ''text/html''), (''htm'', ''text/html''),
         (''json'', ''application/json''), (''png'', ''image/png''),
         (''jpg'', ''image/jpeg''), (''jpeg'', ''image/jpeg''),
         (''svg'', ''image/svg+xml'')] ext of
        Some t \<Rightarrow> t
      | None \<Rightarrow> ''application/octet-stream'')"

subsection \<open>Sample surroundings and requests\<close>

text \<open>
  Concrete inputs on which the theorems below are instantiated: an \<open>int\<close> that reads
  plain decimal digits, a server installed in \<open>/app\<close>, a file system with the two
  directories, one page and a file outside them, and requests built from their parts.
\<close>

definition decimal :: "string \<Rightarrow> int option" where
  "decimal s =
     (if s \<noteq> [] \<and> list_all (\<lambda>c. 48 \<le> (of_char c :: nat) \<and> (of_char c :: nat) \<le> 57) s
      then Some (foldl (\<lambda>a c. 10 * a + (int (of_char c) - 48)) 0 s)
      else None)"

definition demo_env :: env where
  "demo_env = \<lparr> PUBLIC_DIR = [''app'', ''public''], UPLOAD_DIR = [''app'', ''uploads''],
                py_int = decimal \<rparr>"

definition demo_fs :: fs where
  "demo_fs =
     [[] \<mapsto> Dir, [''app''] \<mapsto> Dir, [''app'', ''public''] \<mapsto> Dir,
      [''app'', ''public'', ''index.html''] \<mapsto> File ''<h1>Veo</h1>'',
      [''app'', ''uploads''] \<mapsto> Dir,
      [''etc''] \<mapsto> Dir, [''etc'', ''passwd''] \<mapsto> File ''root:x:0:0'']"

definition get_request :: "string \<Rightarrow> request" where
  "get_request p = \<lparr> req_path = p, req_headers = [], req_form = Inr [] \<rparr>"

definition multipart :: "(string \<times> string) list \<Rightarrow> exn + form_field list \<Rightarrow> request" where
  "multipart extra parsed =
     \<lparr> req_path = ''/api/generate'',
       req_headers = (''Content-Type'', ''multipart/form-data; boundary=veo'') # extra,
       req_form = parsed \<rparr>"

definition model_part :: "string \<Rightarrow> form_field" where
  "model_part name = \<lparr> field_name = Some ''model'', filename = Some name, content = ''glTF'' \<rparr>"

definition prompt_part :: "string \<Rightarrow> form_field" where
  "prompt_part words = \<lparr> field_name = Some ''prompt'', filename = None, content = words \<rparr>"

definition car_upload :: request where
  "car_upload =
     multipart [(''Content-Length'', ''1234'')]
       (Inr [model_part ''car.glb'', prompt_part ''ad for a car''])"

definition gltf_upload :: request where
  "gltf_upload = multipart [] (Inr [model_part ''scene.GLTF''])"

definition empty_prompt_upload :: request where
  "empty_prompt_upload = multipart [] (Inr [model_part ''car.glb'', prompt_part []])"

definition oversized_upload :: request where
  "oversized_upload =
     multipart [(''content-length'', ''104857601'')] (Inr [model_part ''car.glb''])"

definition broken_upload :: request where
  "broken_upload = multipart [] (Inl ValueError)"

text \<open>A collaborator that raises, as a real one without credentials would.\<close>

definition failing :: collaborator where
  "failing file_path prompt fs = (Inl (CollaboratorError ''no credentials''), fs)"

section \<open>Properties\<close>

subsection \<open>Auxiliary facts\<close>

lemmas response_defs = send_response_def send_header_def end_headers_def send_error_def
  wfile_write_def no_response_def send_common_headers_def

lemmas path_defs = translate_path_def normpath_def before_query_def lstrip_slash_def
  startswith_def normpath_step_def Path_def truediv_def abs_path_def path_suffix_def
  path_name_def get_target_def

lemmas stat_defs = path_exists_def is_file_def os_stat_def read_bytes_def

lemmas demo_defs = demo_env_def demo_fs_def get_request_def multipart_def model_part_def
  prompt_part_def failing_def decimal_def car_upload_def gltf_upload_def
  empty_prompt_upload_def oversized_upload_def broken_upload_def

lemmas header_defs = content_type_def content_length_def parse_header_def find_all_def
  count_quote_def str_strip_def isspace_def str_lower_def chr_lower_def

lemmas form_defs = form_contains_def form_getitem_def getfirst_def field_value_def
  checked_upload_def


lemma form_getitem_contains:
  "form_getitem form key = Some it \<Longrightarrow> form_contains form key"
proof -
  assume "form_getitem form key = Some it"
  then have "filter (\<lambda>item. field_name item = Some key) form \<noteq> []"
    by (auto simp: form_getitem_def Let_def)
  then show ?thesis
    by (auto simp: form_contains_def list_ex_iff filter_empty_conv)
qed

lemma getfirst_contains:
  "getfirst form key = Some v \<Longrightarrow> form_contains form key"
  by (simp add: getfirst_def split: if_splits)

lemma mkstemp_fresh:
  "mkstemp fs dir suf names = Inr (tp, fs1) \<Longrightarrow>
     fs tp = None \<and> fs1 = fs(tp \<mapsto> File []) \<and>
     (\<exists>name \<in> set names. tp = dir @ [''tmp'' @ name @ suf])"
  by (induction names) (auto simp: Let_def split: if_splits)

lemma rfind_Some: "rfind c s = Some i \<Longrightarrow> i < length s \<and> s ! i = c"
  by (induction s arbitrary: i) (auto split: option.splits if_splits)

lemma path_suffix_dot: "path_suffix p \<noteq> [] \<Longrightarrow> \<exists>ext. path_suffix p = CHR ''.'' # ext"
  by (auto simp: path_suffix_def Let_def Cons_nth_drop_Suc [symmetric]
      split: option.splits if_splits dest!: rfind_Some)

lemma guess_type_table: "guess_type p = spec_content_type (drop 1 (path_suffix p))"
proof (cases "path_suffix p = []")
  case True
  then show ?thesis by (simp add: guess_type_def spec_content_type_def)
next
  case False
  then obtain ext where "path_suffix p = CHR ''.'' # ext"
    using path_suffix_dot by blast
  then show ?thesis by (simp add: guess_type_def spec_content_type_def)
qed

lemma unlink_result:
  "fs p \<noteq> Some Dir \<Longrightarrow> unlink fs p = Inr (fs(p := None))"
  by (auto simp: unlink_def split: option.splits node.splits)

lemma store_and_generate_removes:
  assumes "mkstemp fs (UPLOAD_DIR e) file_suffix names = Inr (temp_path, fs1)"
    and "snd (collab (abs_path temp_path) prompt_field
            (fs1(temp_path \<mapsto> File (content upload_field)))) temp_path \<noteq> Some Dir"
  shows "snd (store_and_generate collab e fs names upload_field file_suffix prompt_field)
           temp_path = None"
  using assms
  by (auto simp: store_and_generate_def Let_def unlink_result split: prod.splits sum.splits)

lemma store_and_generate_veo:
  assumes "mkstemp fs (UPLOAD_DIR e) file_suffix names = Inr (temp_path, fs1)"
  shows "store_and_generate veo e fs names upload_field file_suffix prompt_field =
           (send_json (generate_video_using_veo (abs_path temp_path) prompt_field), fs)"
proof -
  from mkstemp_fresh [OF assms] have fresh: "fs temp_path = None"
    and fs1: "fs1 = fs(temp_path \<mapsto> File [])" by simp_all
  have "(fs1(temp_path \<mapsto> File (content upload_field)))(temp_path := None) = fs"
    using fresh fs1 by auto
  then show ?thesis
    using assms by (simp add: store_and_generate_def veo_def unlink_def)
qed

lemma validate_prompt:
  "validate e self = Inr (upload_field, file_suffix, prompt_field) \<Longrightarrow>
   req_form self = Inr form \<Longrightarrow>
   prompt_field = (if form_contains form ''prompt'' then getfirst form ''prompt'' else None)"
  by (auto simp: validate_def Let_def split: if_splits sum.splits option.splits prod.splits)

lemma validate_suffix:
  "validate e self = Inr (upload_field, file_suffix, prompt_field) \<Longrightarrow>
   file_suffix \<in> {''.gltf'', ''.glb''}"
  by (auto simp: validate_def Let_def split: if_splits sum.splits option.splits prod.splits)

lemma do_POST_valid:
  assumes "validate e self = Inr (upload_field, file_suffix, prompt_field)"
    and "mkstemp fs (UPLOAD_DIR e) file_suffix names = Inr (temp_path, fs1)"
  shows "do_POST e fs names self =
           (send_json (generate_video_using_veo (abs_path temp_path) prompt_field), fs)"
proof -
  have "store_and_generate veo e fs names upload_field file_suffix prompt_field =
      (send_json (generate_video_using_veo (abs_path temp_path) prompt_field), fs)"
    using assms(2) by (rule store_and_generate_veo)
  then show ?thesis
    using assms(1) by (simp add: do_POST_with_def do_POST_def)
qed

lemma send_json_text:
  assumes "or_default prompt = PStr s"
  shows "\<exists>b. json_dumps (generate_video_using_veo p prompt) = Inr b \<and>
           send_json (generate_video_using_veo p prompt) =
             Inr \<lparr> status = Some 200, error_message = None,
                    sent_headers =
                      [(''Access-Control-Allow-Origin'', ''*''), (''Cache-Control'', ''no-cache''),
                       (''Content-Type'', ''application/json''),
                       (''Content-Length'', str_nat (length b))],
                    body = b \<rparr>"
  using assms
  by (simp add: json_dumps_def generate_video_using_veo_def send_json_def response_defs)

text \<open>The sample upload passes the checks, and its temporary file gets the one name on offer.\<close>

lemma car_upload_valid:
  "validate demo_env car_upload =
     Inr (model_part ''car.glb'', ''.glb'', Some (PStr ''ad for a car''))"
  by code_simp

lemma demo_mkstemp:
  "mkstemp demo_fs (UPLOAD_DIR demo_env) ''.glb'' [''abcdefgh''] =
     Inr ([''app'', ''uploads'', ''tmpabcdefgh.glb''],
          demo_fs([''app'', ''uploads'', ''tmpabcdefgh.glb''] \<mapsto> File []))"
  by (simp add: demo_defs Let_def)

subsection \<open>The claims\<close>

text \<open>
  C7. Every \<open>OPTIONS\<close> request, whatever its path, headers or body, is answered with
  status 204, exactly the three CORS headers, and no body bytes.
\<close>

theorem do_OPTIONS_preflight:
  "do_OPTIONS self =
     \<lparr> status = Some 204, error_message = None,
       sent_headers = [(''Access-Control-Allow-Origin'', ''*''),
                       (''Access-Control-Allow-Methods'', ''POST, GET, OPTIONS''),
                       (''Access-Control-Allow-Headers'', ''Content-Type'')],
       body = [] \<rparr>"
  by (simp add: do_OPTIONS_def send_response_def send_header_def end_headers_def
      no_response_def)

text \<open>
  C1. The claim is that a path leading out of the public root is answered with status
  404. It is not: \<open>normpath\<close> keeps the leading \<open>..\<close> of a relative path, so for
  \<open>/../../etc/passwd\<close>, with the public root at \<open>/app/public\<close>, the path looked up is
  \<open>/app/public/../../etc/passwd\<close>, the operating system arrives at \<open>/etc/passwd\<close>, and the
  answer is status 200 with the bytes of that file.
\<close>

theorem traversal_serves_file_outside_root:
  "get_target demo_env (get_request ''/../../etc/passwd'') =
     \<lparr> anchor = ''/'', tail = [''app'', ''public'', ''..'', ''..'', ''etc'', ''passwd''] \<rparr> \<and>
   os_walk demo_fs [] [''app'', ''public'', ''..'', ''..'', ''etc'', ''passwd''] =
     Some [''etc'', ''passwd''] \<and>
   do_GET demo_env demo_fs (get_request ''/../../etc/passwd'') =
     \<lparr> status = Some 200, error_message = None,
       sent_headers =
         [(''Access-Control-Allow-Origin'', ''*''), (''Cache-Control'', ''no-cache''),
          (''Content-Type'', ''application/octet-stream'')],
       body = ''root:x:0:0'' \<rparr>"
  by code_simp

text \<open>
  The file that is served is the one at \<open>/etc/passwd\<close>, which is not below the public
  root \<open>/app/public\<close>.
\<close>

theorem traversal_serves_file_outside_root_witness:
  "status (do_GET demo_env demo_fs (get_request ''/../../etc/passwd'')) = Some 200 \<and>
   body (do_GET demo_env demo_fs (get_request ''/../../etc/passwd'')) = ''root:x:0:0'' \<and>
   demo_fs [''etc'', ''passwd''] = Some (File ''root:x:0:0'') \<and>
   take (length (PUBLIC_DIR demo_env)) [''etc'', ''passwd''] \<noteq> PUBLIC_DIR demo_env"
  using traversal_serves_file_outside_root by (simp add: demo_defs)

text \<open>
  C2. When a \<open>POST\<close> passes the checks and \<open>mkstemp\<close> has made the temporary file, no
  file is left at its path when the handler is left, whether the collaborator returns
  or raises, and also when the collaborator has removed the file itself (all that is
  asked of the collaborator is that it leaves no directory at that path). With the
  mocked collaborator the file system is afterwards what it was before the request.
\<close>

theorem temp_file_removed:
  assumes "validate e self = Inr (upload_field, file_suffix, prompt_field)"
    and "mkstemp fs (UPLOAD_DIR e) file_suffix names = Inr (temp_path, fs1)"
    and "snd (collab (abs_path temp_path) prompt_field
            (fs1(temp_path \<mapsto> File (content upload_field)))) temp_path \<noteq> Some Dir"
  shows "snd (do_POST_with collab e fs names self) temp_path = None
         \<and> snd (do_POST e fs names self) = fs"
proof -
  have "snd (store_and_generate collab e fs names upload_field file_suffix prompt_field)
          temp_path = None"
    using assms(2,3) by (rule store_and_generate_removes)
  moreover have "store_and_generate veo e fs names upload_field file_suffix prompt_field =
      (send_json (generate_video_using_veo (abs_path temp_path) prompt_field), fs)"
    using assms(2) by (rule store_and_generate_veo)
  ultimately show ?thesis
    using assms(1) by (simp add: do_POST_with_def do_POST_def)
qed

text \<open>The sample upload with a collaborator that raises: the temporary file is gone.\<close>

theorem temp_file_removed_witness:
  "validate demo_env car_upload =
     Inr (model_part ''car.glb'', ''.glb'', Some (PStr ''ad for a car'')) \<and>
   mkstemp demo_fs (UPLOAD_DIR demo_env) ''.glb'' [''abcdefgh''] =
     Inr ([''app'', ''uploads'', ''tmpabcdefgh.glb''],
          demo_fs([''app'', ''uploads'', ''tmpabcdefgh.glb''] \<mapsto> File [])) \<and>
   snd (do_POST_with failing demo_env demo_fs [''abcdefgh''] car_upload)
     [''app'', ''uploads'', ''tmpabcdefgh.glb''] = None \<and>
   snd (do_POST demo_env demo_fs [''abcdefgh''] car_upload) = demo_fs"
proof -
  have "snd (failing (abs_path [''app'', ''uploads'', ''tmpabcdefgh.glb''])
          (Some (PStr ''ad for a car''))
          ((demo_fs([''app'', ''uploads'', ''tmpabcdefgh.glb''] \<mapsto> File []))
             ([''app'', ''uploads'', ''tmpabcdefgh.glb''] \<mapsto> File (content (model_part ''car.glb'')))))
        [''app'', ''uploads'', ''tmpabcdefgh.glb''] \<noteq> Some Dir"
    by (simp add: failing_def)
  from temp_file_removed [where collab = failing, OF car_upload_valid demo_mkstemp this]
  show ?thesis
    using car_upload_valid demo_mkstemp by simp
qed

text \<open>
  C3. An upload to \<open>/api/generate\<close> that declares a \<open>Content-Length\<close> above 104,857,600 is
  answered with status 413, and the file system is left as it was.
\<close>

theorem oversized_upload_rejected:
  assumes "req_path self = ''/api/generate''"
    and "content_type self = ''multipart/form-data''"
    and "headers_get (req_headers self) ''Content-Length'' = Some v"
    and "py_int e v = Some n"
    and "n > 104857600"
  shows "do_POST e fs names self =
           (Inr \<lparr> status = Some 413, error_message = Some ''File too large'',
                   sent_headers = [], body = [] \<rparr>, fs)"
  using assms
  by (simp add: do_POST_def do_POST_with_def validate_def content_length_def response_defs)

text \<open>An upload that declares one byte more than the limit.\<close>

theorem oversized_upload_rejected_witness:
  "req_path oversized_upload = ''/api/generate'' \<and>
   content_type oversized_upload = ''multipart/form-data'' \<and>
   headers_get (req_headers oversized_upload) ''Content-Length'' = Some ''104857601'' \<and>
   py_int demo_env ''104857601'' = Some 104857601 \<and>
   do_POST demo_env demo_fs [''abcdefgh''] oversized_upload =
     (Inr \<lparr> status = Some 413, error_message = Some ''File too large'',
             sent_headers = [], body = [] \<rparr>, demo_fs)"
proof -
  have p: "req_path oversized_upload = ''/api/generate''"
    by (simp add: demo_defs multipart_def)
  have t: "content_type oversized_upload = ''multipart/form-data''"
    by code_simp
  have h: "headers_get (req_headers oversized_upload) ''Content-Length'' = Some ''104857601''"
    by code_simp
  have i: "py_int demo_env ''104857601'' = Some 104857601"
    by code_simp
  have n: "(104857601 :: int) > 104857600"
    by simp
  from oversized_upload_rejected [OF p t h i n, of demo_fs "[''abcdefgh'']"] p t h i
  show ?thesis by simp
qed

text \<open>
  C4. A multipart upload that reaches the check of the \<open>model\<close> part without one, or with
  one that has no file name or an empty one, is answered with status 400.
\<close>

theorem missing_model_rejected:
  assumes "req_path self = ''/api/generate''"
    and "content_type self = ''multipart/form-data''"
    and "content_length e self = Inr n"
    and "n \<le> 104857600"
    and "req_form self = Inr form"
    and "\<not> form_contains form ''model'' \<or>
         (form_getitem form ''model'' = Some (Single f) \<and>
          (filename f = None \<or> filename f = Some []))"
  shows "do_POST e fs names self =
           (Inr \<lparr> status = Some 400, error_message = Some ''Missing model file upload'',
                   sent_headers = [], body = [] \<rparr>, fs)"
  using assms
  by (auto simp: do_POST_def do_POST_with_def validate_def response_defs checked_upload_def)

text \<open>A form with a prompt only, and a form whose model part has an empty file name.\<close>

theorem missing_model_rejected_witness:
  "\<not> form_contains [prompt_part ''ad for a car''] ''model'' \<and>
   do_POST demo_env demo_fs [''abcdefgh''] (multipart [] (Inr [prompt_part ''ad for a car''])) =
     (Inr \<lparr> status = Some 400, error_message = Some ''Missing model file upload'',
             sent_headers = [], body = [] \<rparr>, demo_fs) \<and>
   form_getitem [model_part []] ''model'' = Some (Single (model_part [])) \<and>
   filename (model_part []) = Some [] \<and>
   do_POST demo_env demo_fs [''abcdefgh''] (multipart [] (Inr [model_part []])) =
     (Inr \<lparr> status = Some 400, error_message = Some ''Missing model file upload'',
             sent_headers = [], body = [] \<rparr>, demo_fs)"
proof -
  have p: "req_path (multipart [] parsed) = ''/api/generate''" for parsed
    by (simp add: multipart_def)
  have t: "content_type (multipart [] parsed) = ''multipart/form-data''" for parsed
    by (simp add: multipart_def header_defs upt_conv_Cons)
  have l: "content_length demo_env (multipart [] parsed) = Inr 0" for parsed
    by (simp add: multipart_def header_defs)
  have n: "(0 :: int) \<le> 104857600"
    by simp
  have f: "req_form (multipart [] (Inr form)) = Inr form" for form
    by (simp add: multipart_def)
  have a: "\<not> form_contains [prompt_part ''ad for a car''] ''model''"
    by code_simp
  have g: "form_getitem [model_part []] ''model'' = Some (Single (model_part []))"
    by code_simp
  have e: "filename (model_part []) = Some []"
    by (simp add: model_part_def)
  have "\<not> form_contains [prompt_part ''ad for a car''] ''model'' \<or>
        (form_getitem [prompt_part ''ad for a car''] ''model'' = Some (Single (model_part [])) \<and>
         (filename (model_part []) = None \<or> filename (model_part []) = Some []))"
    using a by simp
  from missing_model_rejected [OF p t l n f this, of demo_fs "[''abcdefgh'']"]
  have 1: "do_POST demo_env demo_fs [''abcdefgh''] (multipart [] (Inr [prompt_part ''ad for a car''])) =
     (Inr \<lparr> status = Some 400, error_message = Some ''Missing model file upload'',
             sent_headers = [], body = [] \<rparr>, demo_fs)" .
  have "\<not> form_contains [model_part []] ''model'' \<or>
        (form_getitem [model_part []] ''model'' = Some (Single (model_part [])) \<and>
         (filename (model_part []) = None \<or> filename (model_part []) = Some []))"
    using g e by simp
  from missing_model_rejected [OF p t l n f this, of demo_fs "[''abcdefgh'']"]
  have 2: "do_POST demo_env demo_fs [''abcdefgh''] (multipart [] (Inr [model_part []])) =
     (Inr \<lparr> status = Some 400, error_message = Some ''Missing model file upload'',
             sent_headers = [], body = [] \<rparr>, demo_fs)" .
  from a g e 1 2 show ?thesis by simp
qed

text \<open>
  C5. A multipart upload whose \<open>model\<close> part has a file name with a suffix that in lower
  case is neither \<open>.gltf\<close> nor \<open>.glb\<close> is answered with status 415, and the file system is
  left as it was: no temporary file is written.
\<close>

theorem unsupported_extension_rejected:
  assumes "req_path self = ''/api/generate''"
    and "content_type self = ''multipart/form-data''"
    and "content_length e self = Inr n"
    and "n \<le> 104857600"
    and "req_form self = Inr form"
    and "form_getitem form ''model'' = Some (Single f)"
    and "filename f = Some name"
    and "name \<noteq> []"
    and "str_lower (path_suffix (Path name)) \<notin> {''.gltf'', ''.glb''}"
  shows "do_POST e fs names self =
           (Inr \<lparr> status = Some 415,
                   error_message = Some ''Only GLTF/GLB files are supported'',
                   sent_headers = [], body = [] \<rparr>, fs)"
  using assms form_getitem_contains [OF assms(6)]
  by (simp add: do_POST_def do_POST_with_def validate_def response_defs checked_upload_def)

text \<open>Only the last suffix counts, in lower case: \<open>car.GLB.zip\<close> is refused.\<close>

theorem unsupported_extension_rejected_witness:
  "form_getitem [model_part ''car.GLB.zip''] ''model'' = Some (Single (model_part ''car.GLB.zip'')) \<and>
   str_lower (path_suffix (Path ''car.GLB.zip'')) = ''.zip'' \<and>
   do_POST demo_env demo_fs [''abcdefgh''] (multipart [] (Inr [model_part ''car.GLB.zip''])) =
     (Inr \<lparr> status = Some 415, error_message = Some ''Only GLTF/GLB files are supported'',
             sent_headers = [], body = [] \<rparr>, demo_fs)"
proof -
  have p: "req_path (multipart [] parsed) = ''/api/generate''" for parsed
    by (simp add: multipart_def)
  have t: "content_type (multipart [] parsed) = ''multipart/form-data''" for parsed
    by (simp add: multipart_def header_defs upt_conv_Cons)
  have l: "content_length demo_env (multipart [] parsed) = Inr 0" for parsed
    by (simp add: multipart_def header_defs)
  have n: "(0 :: int) \<le> 104857600"
    by simp
  have f: "req_form (multipart [] (Inr form)) = Inr form" for form
    by (simp add: multipart_def)
  have g: "form_getitem [model_part ''car.GLB.zip''] ''model'' =
      Some (Single (model_part ''car.GLB.zip''))"
    by code_simp
  have e: "filename (model_part ''car.GLB.zip'') = Some ''car.GLB.zip''"
    by (simp add: model_part_def)
  have ne: "''car.GLB.zip'' \<noteq> []"
    by simp
  have s: "str_lower (path_suffix (Path ''car.GLB.zip'')) = ''.zip''"
    by code_simp
  have ns: "str_lower (path_suffix (Path ''car.GLB.zip'')) \<notin> {''.gltf'', ''.glb''}"
    unfolding s by simp
  from unsupported_extension_rejected [OF p t l n f g e ne ns, of demo_fs "[''abcdefgh'']"] g s
  show ?thesis by simp
qed

text \<open>
  C6, as amended. The payload of the mocked collaborator has the status \<open>queued\<close>, as
  \<open>sourceModel\<close> the last component of the path it is given, and as \<open>usedPrompt\<close> the
  prompt when that is a text that is not empty, and \<open>(default prompt)\<close> when there is no
  prompt or the empty text. In \<open>do_POST\<close> the path given is that of the temporary file, so
  the \<open>sourceModel\<close> of the answer is \<open>tmp\<close>, a random name and the checked suffix, not
  the name of the uploaded file.
\<close>

theorem veo_payload:
  "map_of (generate_video_using_veo file_path prompt) ''status'' = Some (PStr ''queued'') \<and>
   map_of (generate_video_using_veo file_path prompt) ''sourceModel'' =
     Some (PStr (path_name file_path)) \<and>
   (\<forall>s. prompt = Some (PStr s) \<and> s \<noteq> [] \<longrightarrow>
      map_of (generate_video_using_veo file_path prompt) ''usedPrompt'' = Some (PStr s)) \<and>
   (prompt = None \<or> prompt = Some (PStr []) \<longrightarrow>
      map_of (generate_video_using_veo file_path prompt) ''usedPrompt'' =
        Some (PStr ''(default prompt)'')) \<and>
   (validate e self = Inr (upload_field, file_suffix, prompt) \<and>
    mkstemp fs (UPLOAD_DIR e) file_suffix names = Inr (temp_path, fs1) \<longrightarrow>
      fst (do_POST e fs names self) =
        send_json (generate_video_using_veo (abs_path temp_path) prompt) \<and>
      file_suffix \<in> {''.gltf'', ''.glb''} \<and>
      (\<exists>name \<in> set names. path_name (abs_path temp_path) = ''tmp'' @ name @ file_suffix))"
proof -
  have "fst (do_POST e fs names self) =
          send_json (generate_video_using_veo (abs_path temp_path) prompt) \<and>
        file_suffix \<in> {''.gltf'', ''.glb''} \<and>
        (\<exists>name \<in> set names. path_name (abs_path temp_path) = ''tmp'' @ name @ file_suffix)"
    if v: "validate e self = Inr (upload_field, file_suffix, prompt)"
      and m: "mkstemp fs (UPLOAD_DIR e) file_suffix names = Inr (temp_path, fs1)"
  proof -
    from mkstemp_fresh [OF m] obtain name where
      "name \<in> set names" "temp_path = UPLOAD_DIR e @ [''tmp'' @ name @ file_suffix]"
      by blast
    then have "\<exists>name \<in> set names. path_name (abs_path temp_path) = ''tmp'' @ name @ file_suffix"
      by (auto simp: path_name_def abs_path_def)
    then show ?thesis
      using do_POST_valid [OF v m] validate_suffix [OF v] by simp
  qed
  then show ?thesis
    by (auto simp: generate_video_using_veo_def or_default_def)
qed

text \<open>
  The claim C6 as it was written fails twice: the empty text is a prompt that is
  supplied and not echoed, and the upload of \<open>car.glb\<close> with the prompt \<open>ad for a car\<close> is
  answered with the name of the temporary file as \<open>sourceModel\<close>.
\<close>

theorem veo_payload_counterexample:
  "generate_video_using_veo (Path ''car.glb'') (Some (PStr [])) =
     [(''videoUrl'', PStr ''https://example.com/generated-veo-ad.mp4''),
      (''jobId'', PStr ''demo-job-1234''),
      (''status'', PStr ''queued''),
      (''usedPrompt'', PStr ''(default prompt)''),
      (''sourceModel'', PStr ''car.glb'')] \<and>
   fst (do_POST demo_env demo_fs [''abcdefgh''] car_upload) =
     send_json
       [(''videoUrl'', PStr ''https://example.com/generated-veo-ad.mp4''),
        (''jobId'', PStr ''demo-job-1234''),
        (''status'', PStr ''queued''),
        (''usedPrompt'', PStr ''ad for a car''),
        (''sourceModel'', PStr ''tmpabcdefgh.glb'')]"
  by code_simp

text \<open>The sample upload, and the payload made without a prompt.\<close>

theorem veo_payload_witness:
  "validate demo_env car_upload =
     Inr (model_part ''car.glb'', ''.glb'', Some (PStr ''ad for a car'')) \<and>
   mkstemp demo_fs (UPLOAD_DIR demo_env) ''.glb'' [''abcdefgh''] =
     Inr ([''app'', ''uploads'', ''tmpabcdefgh.glb''],
          demo_fs([''app'', ''uploads'', ''tmpabcdefgh.glb''] \<mapsto> File [])) \<and>
   fst (do_POST demo_env demo_fs [''abcdefgh''] car_upload) =
     send_json (generate_video_using_veo (abs_path [''app'', ''uploads'', ''tmpabcdefgh.glb''])
                  (Some (PStr ''ad for a car''))) \<and>
   map_of (generate_video_using_veo (abs_path [''app'', ''uploads'', ''tmpabcdefgh.glb''])
             (Some (PStr ''ad for a car''))) ''usedPrompt'' = Some (PStr ''ad for a car'') \<and>
   map_of (generate_video_using_veo (abs_path [''app'', ''uploads'', ''tmpabcdefgh.glb''])
             (Some (PStr ''ad for a car''))) ''sourceModel'' = Some (PStr ''tmpabcdefgh.glb'') \<and>
   map_of (generate_video_using_veo (abs_path [''app'', ''uploads'', ''tmpabcdefgh.glb''])
             None) ''usedPrompt'' = Some (PStr ''(default prompt)'')"
proof -
  have n: "path_name (abs_path [''app'', ''uploads'', ''tmpabcdefgh.glb'']) = ''tmpabcdefgh.glb''"
    by (simp add: path_name_def abs_path_def)
  from veo_payload [of "abs_path [''app'', ''uploads'', ''tmpabcdefgh.glb'']"
      "Some (PStr ''ad for a car'')" demo_env car_upload "model_part ''car.glb''" "''.glb''"
      demo_fs "[''abcdefgh'']" "[''app'', ''uploads'', ''tmpabcdefgh.glb'']"
      "demo_fs([''app'', ''uploads'', ''tmpabcdefgh.glb''] \<mapsto> File [])"]
    veo_payload [of "abs_path [''app'', ''uploads'', ''tmpabcdefgh.glb'']" None]
    car_upload_valid demo_mkstemp n
  show ?thesis by simp
qed

text \<open>
  C8. When the path that \<open>do_GET\<close> looks up is a regular file, the answer is status 200
  with the CORS origin \<open>*\<close>, \<open>Cache-Control: no-cache\<close>, the content type that the table of
  the specification gives for the extension (the suffix without its dot), and the bytes
  of the file as the body.
\<close>

theorem static_file_served:
  assumes "os_stat fs (get_target e self) = Some (File bytes)"
  shows "do_GET e fs self =
           \<lparr> status = Some 200, error_message = None,
             sent_headers =
               [(''Access-Control-Allow-Origin'', ''*''), (''Cache-Control'', ''no-cache''),
                (''Content-Type'',
                 spec_content_type (drop 1 (path_suffix (get_target e self))))],
             body = bytes \<rparr>"
  using assms
  by (simp add: do_GET_def stat_defs response_defs guess_type_table Let_def)

text \<open>The page at the root of the sample file system.\<close>

theorem static_file_served_witness:
  "os_stat demo_fs (get_target demo_env (get_request ''/'')) = Some (File ''<h1>Veo</h1>'') \<and>
   do_GET demo_env demo_fs (get_request ''/'') =
     \<lparr> status = Some 200, error_message = None,
       sent_headers =
         [(''Access-Control-Allow-Origin'', ''*''), (''Cache-Control'', ''no-cache''),
          (''Content-Type'', ''text/html'')],
       body = ''<h1>Veo</h1>'' \<rparr>"
proof -
  have s: "os_stat demo_fs (get_target demo_env (get_request ''/'')) = Some (File ''<h1>Veo</h1>'')"
    by code_simp
  have c: "spec_content_type (drop 1 (path_suffix (get_target demo_env (get_request ''/'')))) =
      ''text/html''"
    by code_simp
  from static_file_served [OF s] s c show ?thesis by simp
qed

text \<open>
  C9. In a valid upload whose first \<open>prompt\<close> part is the empty text, the answer is status
  200 and its body is the JSON text of the payload made for the empty prompt, whose
  \<open>usedPrompt\<close> is \<open>(default prompt)\<close>.
\<close>

theorem empty_prompt_uses_default:
  assumes "validate e self = Inr (upload_field, file_suffix, prompt_field)"
    and "req_form self = Inr form"
    and "getfirst form ''prompt'' = Some (PStr [])"
    and "mkstemp fs (UPLOAD_DIR e) file_suffix names = Inr (temp_path, fs1)"
  shows "\<exists>r payload.
           fst (do_POST e fs names self) = Inr r \<and> status r = Some 200 \<and>
           json_dumps payload = Inr (body r) \<and>
           payload = generate_video_using_veo (abs_path temp_path) (Some (PStr [])) \<and>
           map_of payload ''usedPrompt'' = Some (PStr ''(default prompt)'')"
proof -
  have "form_contains form ''prompt''"
    using assms(3) by (rule getfirst_contains)
  with validate_prompt [OF assms(1,2)] assms(3) have p: "prompt_field = Some (PStr [])"
    by simp
  have d: "or_default (Some (PStr [])) = PStr ''(default prompt)''"
    by (simp add: or_default_def)
  from send_json_text [OF d, of "abs_path temp_path"] do_POST_valid [OF assms(1,4)] p d
  show ?thesis
    by (auto simp: generate_video_using_veo_def)
qed

text \<open>The sample upload with an empty prompt.\<close>

theorem empty_prompt_uses_default_witness:
  "validate demo_env empty_prompt_upload = Inr (model_part ''car.glb'', ''.glb'', Some (PStr [])) \<and>
   getfirst [model_part ''car.glb'', prompt_part []] ''prompt'' = Some (PStr []) \<and>
   (\<exists>r payload.
      fst (do_POST demo_env demo_fs [''abcdefgh''] empty_prompt_upload) = Inr r \<and>
      status r = Some 200 \<and> json_dumps payload = Inr (body r) \<and>
      payload = generate_video_using_veo (abs_path [''app'', ''uploads'', ''tmpabcdefgh.glb''])
                  (Some (PStr [])) \<and>
      map_of payload ''usedPrompt'' = Some (PStr ''(default prompt)''))"
proof -
  have v: "validate demo_env empty_prompt_upload =
      Inr (model_part ''car.glb'', ''.glb'', Some (PStr []))"
    by code_simp
  have f: "req_form empty_prompt_upload = Inr [model_part ''car.glb'', prompt_part []]"
    by (simp add: empty_prompt_upload_def multipart_def)
  have g: "getfirst [model_part ''car.glb'', prompt_part []] ''prompt'' = Some (PStr [])"
    by code_simp
  from empty_prompt_uses_default [OF v f g demo_mkstemp] v g show ?thesis by simp
qed

text \<open>
  C10. Without a \<open>Content-Length\<close> header the declared length is 0, the answer is never
  status 413, and a request for \<open>/api/generate\<close> of the right content type goes on to the
  parsing of the form: an exception raised there is the one that leaves the handler.
\<close>

theorem no_content_length_defaults_to_zero:
  assumes "headers_get (req_headers self) ''Content-Length'' = None"
  shows "content_length e self = Inr 0 \<and>
         (\<forall>r. fst (do_POST e fs names self) = Inr r \<longrightarrow> status r \<noteq> Some 413) \<and>
         (req_path self = ''/api/generate'' \<and> content_type self = ''multipart/form-data'' \<longrightarrow>
            (\<forall>ex. req_form self = Inl ex \<longrightarrow> do_POST e fs names self = (Inl ex, fs)))"
proof -
  have cl: "content_length e self = Inr 0"
    using assms by (simp add: content_length_def)
  have "status r \<noteq> Some 413" if "fst (do_POST e fs names self) = Inr r" for r
  proof (cases "validate e self")
    case (Inl way_out)
    then show ?thesis
      using that cl
      by (auto simp: do_POST_def do_POST_with_def validate_def Let_def response_defs
          split: if_splits sum.splits option.splits prod.splits)
  next
    case (Inr triple)
    then show ?thesis
      using that
      by (auto simp: do_POST_def do_POST_with_def store_and_generate_def veo_def send_json_def
          Let_def response_defs split: if_splits sum.splits option.splits prod.splits)
  qed
  moreover have "do_POST e fs names self = (Inl ex, fs)"
    if "req_path self = ''/api/generate''" "content_type self = ''multipart/form-data''"
      "req_form self = Inl ex" for ex
    using that cl by (simp add: do_POST_def do_POST_with_def validate_def)
  ultimately show ?thesis
    using cl by blast
qed

text \<open>A request whose form cannot be parsed, and an upload that is answered with status 200,
  both without a \<open>Content-Length\<close> header.\<close>

theorem no_content_length_defaults_to_zero_witness:
  "headers_get (req_headers broken_upload) ''Content-Length'' = None \<and>
   content_length demo_env broken_upload = Inr 0 \<and>
   req_path broken_upload = ''/api/generate'' \<and>
   content_type broken_upload = ''multipart/form-data'' \<and>
   req_form broken_upload = Inl ValueError \<and>
   do_POST demo_env demo_fs [''abcdefgh''] broken_upload = (Inl ValueError, demo_fs) \<and>
   headers_get (req_headers gltf_upload) ''Content-Length'' = None \<and>
   (\<exists>r. fst (do_POST demo_env demo_fs [''abcdefgh''] gltf_upload) = Inr r \<and> status r = Some 200)"
proof -
  have h: "headers_get (req_headers broken_upload) ''Content-Length'' = None"
    by code_simp
  have p: "req_path broken_upload = ''/api/generate''"
    by (simp add: demo_defs multipart_def)
  have t: "content_type broken_upload = ''multipart/form-data''"
    by code_simp
  have f: "req_form broken_upload = Inl ValueError"
    by (simp add: demo_defs multipart_def)
  have h': "headers_get (req_headers gltf_upload) ''Content-Length'' = None"
    by code_simp
  have "case fst (do_POST demo_env demo_fs [''abcdefgh''] gltf_upload) of
          Inl ex \<Rightarrow> False | Inr r \<Rightarrow> status r = Some 200"
    by code_simp
  then have r: "\<exists>r. fst (do_POST demo_env demo_fs [''abcdefgh''] gltf_upload) = Inr r \<and>
      status r = Some 200"
    by (cases "fst (do_POST demo_env demo_fs [''abcdefgh''] gltf_upload)") simp_all
  from no_content_length_defaults_to_zero [OF h, of demo_env demo_fs "[''abcdefgh'']"]
    no_content_length_defaults_to_zero [OF h', of demo_env demo_fs "[''abcdefgh'']"]
    h p t f h' r
  show ?thesis by simp
qed

end
